theory Spec2Isabelle
  imports Main "HOL-Library.Multiset" "HOL-Library.Word"
begin

section \<open>Package email: the data model\<close>

text \<open>
  The types of the engine as \<^verbatim>\<open>Engine.SendEmail\<close>, \<^verbatim>\<open>Engine.QueueEmail\<close> and
  \<^verbatim>\<open>Engine.Shutdown\<close> use them. Byte slices and Go strings are both \<^typ>\<open>string\<close>.
  A Go \<^verbatim>\<open>error\<close> is its message; a run-time panic is kept apart from a returned error.
\<close>

datatype failure = Err string | Panic string

record Address =
  Name :: string
  Address :: string

record Attachment =
  ContentType :: string
  Filename :: string
  Data :: string
  Inline :: bool

record Email =
  To :: "Address list"
  From :: Address
  Subject :: string
  Content :: string
  HTML :: bool
  Attachments :: "Attachment list"

text \<open>\<^verbatim>\<open>net.MX\<close>: a host and its preference, a \<^verbatim>\<open>uint16\<close>.\<close>

record MX =
  Host :: string
  Pref :: "16 word"

text \<open>
  \<^verbatim>\<open>type HandlerMiddleware = func(e *Email) (bool, error)\<close>. The handler receives a pointer,
  so the email it leaves behind is part of its result; a nil error is \<open>None\<close>.
\<close>

type_synonym HandlerMiddleware = "Email \<Rightarrow> Email \<times> bool \<times> string option"

text \<open>
  A buffered channel: the values waiting in it, its capacity, and whether it has been closed.
  A value handed directly to a receiver that is already waiting is a value appended and taken
  at once.
\<close>

record 'a chan =
  chan_buf :: "'a list"
  chan_cap :: nat
  chan_closed :: bool

datatype server = Serving | Drained

text \<open>What \<^verbatim>\<open>Engine.Shutdown\<close> does to the engine's collaborators, in the order it happened.\<close>

datatype drain = HTTPShutdown | SMTPShutdown | QueueClose | WorkersWait

text \<open>
  The fields of \<^verbatim>\<open>Engine\<close> that the functions below read or write.
  \<^verbatim>\<open>activeClosing\<close> is the \<^verbatim>\<open>sync.Once\<close>: true once its function has run.
  \<^verbatim>\<open>activeWorkers\<close> is the \<^verbatim>\<open>sync.WaitGroup\<close>'s counter.
  \<^verbatim>\<open>OutgoingTimeout\<close> is a \<^verbatim>\<open>time.Duration\<close>, a number of nanoseconds.
  The two server pointers are nil (\<open>None\<close>) until \<^verbatim>\<open>Start\<close> sets them.
  \<^verbatim>\<open>drained\<close> is not a field of the source: it records the drain actions performed so far.
\<close>

record Engine =
  activeClosing :: bool
  activeWorkers :: nat
  OutgoingWorkerCount :: int
  OutgoingTimeout :: int
  outgoingQueue :: "Email chan"
  outgoingMiddleware :: "HandlerMiddleware list"
  OutgoingDKIMEnabled :: bool
  OutgoingDKIMSigner :: string
  OutgoingSelectorName :: string
  Domain :: string
  smtpServer :: "server option"
  httpServer :: "server option"
  drained :: "drain list"

section \<open>The collaborators of the delivery path\<close>

text \<open>
  \<^verbatim>\<open>enmime\<close>'s builder followed by \<^verbatim>\<open>Encode\<close>, \<^verbatim>\<open>dkim.Sign\<close>, \<^verbatim>\<open>net.LookupMX\<close>,
  \<^verbatim>\<open>sort.Slice\<close> and \<^verbatim>\<open>smtp.SendMail\<close> are libraries; the engine is modelled for any
  behaviour of them. The network may answer differently from one call to the next, so
  \<^verbatim>\<open>smtp.SendMail\<close> also receives the number of steps taken before the call.
\<close>

datatype build_result = BuildFailed string | EncodeFailed string | Encoded string

datatype lookup_result = DNSNotFound | DNSFailed string | MXRecords "MX list"

record world =
  enmimeBuild :: "Email \<Rightarrow> Address \<Rightarrow> build_result"
  dkimSign :: "string \<Rightarrow> string \<Rightarrow> string \<Rightarrow> string \<Rightarrow> string + string"
  netLookupMX :: "string \<Rightarrow> lookup_result"
  sortSlice :: "(MX \<Rightarrow> MX \<Rightarrow> bool) \<Rightarrow> MX list \<Rightarrow> MX list"
  smtpSendMail :: "nat \<Rightarrow> string \<Rightarrow> string \<Rightarrow> string list \<Rightarrow> string \<Rightarrow> string option"

text \<open>The steps of one \<^verbatim>\<open>SendEmail\<close> call that a test double of the libraries would see.\<close>

datatype step =
    NewEnvelope Address
  | DKIMSign string
  | LookupMX string
  | SendMail string string "string list" string

fun isLookup :: "step \<Rightarrow> bool" where
  "isLookup (LookupMX h) = True"
| "isLookup s = False"

fun isSendMail :: "step \<Rightarrow> bool" where
  "isSendMail (SendMail a f t m) = True"
| "isSendMail s = False"

section \<open>Formatting\<close>

text \<open>\<^verbatim>\<open>%d\<close> of a non-negative integer.\<close>

function showNat :: "nat \<Rightarrow> string" where
  "showNat n = (if n < 10 then [''0123456789'' ! n]
                else showNat (n div 10) @ [''0123456789'' ! (n mod 10)])"
  by pat_completeness auto
termination
  by (relation "measure (\<lambda>n. n)") auto

declare showNat.simps [simp del]

text \<open>\<^verbatim>\<open>%s\<close> of an \<^verbatim>\<open>error\<close> value, which may be nil.\<close>

fun showError :: "string option \<Rightarrow> string" where
  "showError None = ''%!s(<nil>)''"
| "showError (Some msg) = msg"

text \<open>\<^verbatim>\<open>strings.Join\<close>.\<close>

fun Join :: "string list \<Rightarrow> string \<Rightarrow> string" where
  "Join [] sep = []"
| "Join [x] sep = x"
| "Join (x # y # ys) sep = x @ sep @ Join (y # ys) sep"

text \<open>\<^verbatim>\<open>strings.SplitN(s, sep, 2)\<close> for a separator of one character: cut at its first occurrence.\<close>

definition SplitN2 :: "string \<Rightarrow> char \<Rightarrow> string list" where
  "SplitN2 s c =
     (case dropWhile (\<lambda>x. x \<noteq> c) s of
        [] \<Rightarrow> [s]
      | x # rest \<Rightarrow> [takeWhile (\<lambda>x. x \<noteq> c) s, rest])"

section \<open>Engine.SendEmail\<close>

definition extractHostFromAddress :: "string \<Rightarrow> failure + string" where
  "extractHostFromAddress address =
     (let parts = SplitN2 address (CHR ''@'') in
      if length parts \<noteq> 2 then Inl (Err (''invalid email address: '' @ address))
      else if parts ! 1 = [] then Inl (Err (''invalid email address: '' @ address))
      else Inr (parts ! 1))"

text \<open>
  \<^verbatim>\<open>max(int(e.OutgoingTimeout.Seconds()/10), 1)\<close>. \<^verbatim>\<open>Seconds()\<close> and the division are
  \<^verbatim>\<open>float64\<close>, and \<^verbatim>\<open>int(...)\<close> truncates toward zero. The quotient is computed exactly
  here; the two agree on every duration that is a whole number of seconds, where
  \<^verbatim>\<open>Seconds()\<close> is exact and the rounded quotient stays on its side of the next integer.
\<close>

definition truncSecondsDiv10 :: "int \<Rightarrow> int" where
  "truncSecondsDiv10 d =
     (if d < 0 then - ((- d) div 10000000000) else d div 10000000000)"

definition attemptTotal :: "Engine \<Rightarrow> nat" where
  "attemptTotal e = nat (max (truncSecondsDiv10 (OutgoingTimeout e)) 1)"

text \<open>
  \<^verbatim>\<open>records[i%len(records)]\<close>: the remainder panics when the slice is empty, the index
  when it is out of range.
\<close>

definition recordAt :: "MX list \<Rightarrow> nat \<Rightarrow> failure + MX" where
  "recordAt records i =
     (if length records = 0 then Inl (Panic ''integer divide by zero'')
      else if i mod length records < length records then Inr (records ! (i mod length records))
      else Inl (Panic ''index out of range''))"

text \<open>
  The attempt loop \<^verbatim>\<open>for i := 0; i < attemptTotal; i++\<close>, with \<open>n\<close> for
  \<^verbatim>\<open>attemptTotal\<close>, from index \<open>i\<close> with the errors collected and the steps taken so far. A failed attempt is \<^verbatim>\<open>continue\<close>, a successful one
  \<^verbatim>\<open>return nil\<close>; after the loop the collected messages are joined into one error.
\<close>

function attemptLoop ::
  "world \<Rightarrow> string \<Rightarrow> string \<Rightarrow> string \<Rightarrow> MX list \<Rightarrow> nat \<Rightarrow> nat \<Rightarrow> string list \<Rightarrow> step list
   \<Rightarrow> step list \<times> (failure + unit)" where
  "attemptLoop w fromAddr toAddr complete records n i attemptErrors tr =
     (if i < n then
        (case recordAt records i of
           Inl p \<Rightarrow> (tr, Inl p)
         | Inr mx \<Rightarrow>
             (case smtpSendMail w (length tr) (Host mx @ '':25'') fromAddr [toAddr] complete of
                Some err \<Rightarrow>
                  attemptLoop w fromAddr toAddr complete records n (Suc i)
                    (attemptErrors @
                       [''attempt '' @ showNat (i + 1) @ ''/'' @ showNat n @ '' failed: '' @ err])
                    (tr @ [SendMail (Host mx @ '':25'') fromAddr [toAddr] complete])
              | None \<Rightarrow>
                  (tr @ [SendMail (Host mx @ '':25'') fromAddr [toAddr] complete], Inr ())))
      else (tr, Inl (Err (''email delivery failed: '' @ Join attemptErrors [CHR 0x0A]))))"
  by pat_completeness auto
termination
  by (relation "measure (\<lambda>(w, f, t, c, r, n, i, errs, tr). n - i)") auto

declare attemptLoop.simps [simp del]

text \<open>
  How the body of a \<^verbatim>\<open>for ... range\<close> loop ends: it returns from the function, or the
  loop goes on.
\<close>

datatype 'a flow = Return 'a | Next

text \<open>
  The signing step. \<^verbatim>\<open>dkim.Sign(w, r, options)\<close> reads a message from \<open>r\<close> and writes the
  signed message to \<open>w\<close>. The call is \<^verbatim>\<open>dkim.Sign(&envelope, &complete, ...)\<close> with
  \<^verbatim>\<open>complete\<close> a fresh buffer: what is signed is the empty message, the result is appended
  to \<^verbatim>\<open>envelope\<close>, which is not read again, and \<^verbatim>\<open>complete\<close> stays empty. Without
  signing, \<^verbatim>\<open>complete\<close> is the envelope.
\<close>

definition signEnvelope :: "world \<Rightarrow> Engine \<Rightarrow> string \<Rightarrow> string + string" where
  "signEnvelope w e envelope =
     (if OutgoingDKIMEnabled e
      then case dkimSign w (Domain e) (OutgoingDKIMSigner e) (OutgoingSelectorName e) [] of
             Inl err \<Rightarrow> Inl err
           | Inr written \<Rightarrow> Inr []
      else Inr envelope)"

text \<open>
  The body of \<^verbatim>\<open>for _, addressee := range email.To\<close>: envelope, signature, lookup, sort,
  attempts. Every path through it is a \<^verbatim>\<open>return\<close>.
\<close>

definition deliverRecipient ::
  "world \<Rightarrow> Engine \<Rightarrow> Email \<Rightarrow> Address \<Rightarrow> step list \<Rightarrow> step list \<times> (failure + unit) flow" where
  "deliverRecipient w e email addressee tr =
     (case enmimeBuild w email addressee of
        BuildFailed err \<Rightarrow>
          (tr @ [NewEnvelope addressee], Return (Inl (Err (''unable to build envelope: '' @ err))))
      | EncodeFailed err \<Rightarrow>
          (tr @ [NewEnvelope addressee], Return (Inl (Err (''unable to encode envelope: '' @ err))))
      | Encoded envelope \<Rightarrow>
          (case signEnvelope w e envelope of
             Inl err \<Rightarrow>
               (tr @ [NewEnvelope addressee, DKIMSign []],
                Return (Inl (Err (''unable to sign envelope: '' @ err))))
           | Inr complete \<Rightarrow>
               (let tr1 = tr @ [NewEnvelope addressee] @
                            (if OutgoingDKIMEnabled e then [DKIMSign []] else [])
                in case extractHostFromAddress (Address addressee) of
                     Inl err \<Rightarrow> (tr1, Return (Inl err))
                   | Inr host \<Rightarrow>
                       (case netLookupMX w host of
                          DNSNotFound \<Rightarrow>
                            (tr1 @ [LookupMX host],
                             Return (Inl (Err (''no mx records present for '' @ host))))
                        | DNSFailed err \<Rightarrow>
                            (tr1 @ [LookupMX host],
                             Return (Inl (Err (''mx records unresolvable for '' @ host @ '': '' @ err))))
                        | MXRecords found \<Rightarrow>
                            (case attemptLoop w (Address (From email)) (Address addressee) complete
                                    (sortSlice w (\<lambda>a b. Pref a < Pref b) found)
                                    (attemptTotal e) 0 [] (tr1 @ [LookupMX host]) of
                               (tr2, r) \<Rightarrow> (tr2, Return r))))))"

fun rangeTo ::
  "world \<Rightarrow> Engine \<Rightarrow> Email \<Rightarrow> Address list \<Rightarrow> step list \<Rightarrow> step list \<times> (failure + unit)" where
  "rangeTo w e email [] tr = (tr, Inr ())"
| "rangeTo w e email (addressee # rest) tr =
     (case deliverRecipient w e email addressee tr of
        (tr', Return r) \<Rightarrow> (tr', r)
      | (tr', Next) \<Rightarrow> rangeTo w e email rest tr')"

text \<open>The middleware chain: the first handler that does not proceed cancels the send.\<close>

fun runMiddleware :: "HandlerMiddleware list \<Rightarrow> Email \<Rightarrow> failure + Email" where
  "runMiddleware [] email = Inr email"
| "runMiddleware (mw # rest) email =
     (case mw email of
        (email', proceed, err) \<Rightarrow>
          if \<not> proceed then Inl (Err (''cancelled by middleware: '' @ showError err))
          else runMiddleware rest email')"

definition SendEmail :: "world \<Rightarrow> Engine \<Rightarrow> Email \<Rightarrow> step list \<times> (failure + unit)" where
  "SendEmail w e email =
     (if length (To email) = 0 then ([], Inl (Err ''no recipients''))
      else case runMiddleware (outgoingMiddleware e) email of
             Inl err \<Rightarrow> ([], Inl err)
           | Inr email' \<Rightarrow> rangeTo w e email' (To email') [])"

section \<open>Engine.QueueEmail, Engine.Start and Engine.Shutdown\<close>

text \<open>
  \<^verbatim>\<open>select { case ch <- v: ... default: ... }\<close>: the send is taken when the buffer has room,
  the default otherwise; on a closed channel the send is chosen and panics.
\<close>

definition trySend :: "'a chan \<Rightarrow> 'a \<Rightarrow> failure + (bool \<times> 'a chan)" where
  "trySend ch v =
     (if chan_closed ch then Inl (Panic ''send on closed channel'')
      else if length (chan_buf ch) < chan_cap ch
      then Inr (True, ch\<lparr>chan_buf := chan_buf ch @ [v]\<rparr>)
      else Inr (False, ch))"


text \<open>\<^verbatim>\<open>close(ch)\<close>.\<close>

definition closeChan :: "'a chan \<Rightarrow> failure + 'a chan" where
  "closeChan ch =
     (if chan_closed ch then Inl (Panic ''close of closed channel'')
      else Inr (ch\<lparr>chan_closed := True\<rparr>))"

text \<open>
  The engine as \<^verbatim>\<open>Start\<close> leaves it while it waits for a listener to return: both servers
  set and serving, one worker registered per \<^verbatim>\<open>OutgoingWorkerCount\<close>.
\<close>

definition Start :: "Engine \<Rightarrow> Engine" where
  "Start e =
     e\<lparr>httpServer := Some Serving,
       smtpServer := Some Serving,
       activeWorkers := activeWorkers e + nat (OutgoingWorkerCount e)\<rparr>"

text \<open>
  The function \<^verbatim>\<open>Shutdown\<close> hands to \<^verbatim>\<open>activeClosing.Do\<close>: three goroutines (the HTTP
  server's \<^verbatim>\<open>Shutdown\<close>, the SMTP server's, and closing the queue followed by
  \<^verbatim>\<open>activeWorkers.Wait()\<close>) and a wait for the three. A server's error is logged only. A nil
  server pointer and a queue already closed are panics. The workers leave once the closed
  queue is empty, so after the wait the buffer is empty unless there was no worker. The three
  run concurrently; \<^verbatim>\<open>drained\<close> lists them in one of the possible orders.
\<close>

definition drainAll :: "Engine \<Rightarrow> failure + Engine" where
  "drainAll e =
     (case httpServer e of
        None \<Rightarrow> Inl (Panic ''invalid memory address or nil pointer dereference'')
      | Some h \<Rightarrow>
          (case smtpServer e of
             None \<Rightarrow> Inl (Panic ''invalid memory address or nil pointer dereference'')
           | Some s \<Rightarrow>
               (case closeChan (outgoingQueue e) of
                  Inl p \<Rightarrow> Inl p
                | Inr q \<Rightarrow>
                    Inr (e\<lparr>httpServer := Some Drained,
                           smtpServer := Some Drained,
                           outgoingQueue :=
                             (if activeWorkers e = 0 then q else q\<lparr>chan_buf := []\<rparr>),
                           activeWorkers := 0,
                           drained := drained e @
                             [HTTPShutdown, SMTPShutdown, QueueClose, WorkersWait]\<rparr>))))"

text \<open>\<^verbatim>\<open>e.activeClosing.Do(func() { ... })\<close>: the function runs on the first call only.\<close>

definition Shutdown :: "Engine \<Rightarrow> failure + Engine" where
  "Shutdown e =
     (if activeClosing e then Inr e
      else case drainAll e of
             Inl p \<Rightarrow> Inl p
           | Inr e' \<Rightarrow> Inr (e'\<lparr>activeClosing := True\<rparr>))"

text \<open>\<open>n\<close> calls of \<^verbatim>\<open>Shutdown\<close>, one after the other.\<close>

fun ShutdownTimes :: "nat \<Rightarrow> Engine \<Rightarrow> failure + Engine" where
  "ShutdownTimes 0 e = Inr e"
| "ShutdownTimes (Suc n) e =
     (case Shutdown e of
        Inl p \<Rightarrow> Inl p
      | Inr e' \<Rightarrow> ShutdownTimes n e')"

section \<open>Package env: configuration, queue and inbound session\<close>

text \<open>
  \<^verbatim>\<open>envString\<close>: the variable's value, or the default when the variable is unset or empty.
  A default of one NUL character marks a variable that must be set: the process exits
  (\<open>None\<close>) when it is not.
\<close>

definition envString :: "(string \<Rightarrow> string) \<Rightarrow> string \<Rightarrow> string \<Rightarrow> string option" where
  "envString getenv field initial =
     (if getenv field = [] then (if initial = [CHR 0x00] then None else Some initial)
      else Some (getenv field))"

text \<open>
  The package variables the session reads. The three inbox addresses are assembled by
  \<^verbatim>\<open>init\<close> from the user names and the domain.
\<close>

record env =
  SMTP_ADDRESS_DMARC :: string
  SMTP_ADDRESS_NOREPLY :: string
  SMTP_ADDRESS_FORWARD :: string
  SMTP_DOMAIN :: string
  SMTP_USERNAME_DMARC :: string
  SMTP_USERNAME_NOREPLY :: string
  SMTP_USERNAME_FORWARD :: string
  SMTP_FORWARD_ADDRESS :: string
  SMTP_DISABLE_NOREPLY :: string

definition loadEnv :: "(string \<Rightarrow> string) \<Rightarrow> env option" where
  "loadEnv getenv =
     Option.bind (envString getenv ''SMTP_DOMAIN'' ''example.org'') (\<lambda>domain.
     Option.bind (envString getenv ''SMTP_USERNAME_DMARC'' ''dmarc'') (\<lambda>dmarc.
     Option.bind (envString getenv ''SMTP_USERNAME_NOREPLY'' ''noreply'') (\<lambda>noreply.
     Option.bind (envString getenv ''SMTP_USERNAME_FORWARD'' ''support'') (\<lambda>forward.
     Option.bind (envString getenv ''SMTP_FORWARD_ADDRESS'' []) (\<lambda>forwardAddress.
     Option.bind (envString getenv ''SMTP_DISABLE_NOREPLY'' []) (\<lambda>disableNoreply.
       Some \<lparr>SMTP_ADDRESS_DMARC = dmarc @ ''@'' @ domain,
             SMTP_ADDRESS_NOREPLY = noreply @ ''@'' @ domain,
             SMTP_ADDRESS_FORWARD = forward @ ''@'' @ domain,
             SMTP_DOMAIN = domain,
             SMTP_USERNAME_DMARC = dmarc,
             SMTP_USERNAME_NOREPLY = noreply,
             SMTP_USERNAME_FORWARD = forward,
             SMTP_FORWARD_ADDRESS = forwardAddress,
             SMTP_DISABLE_NOREPLY = disableNoreply\<rparr>))))))"

text \<open>The errors a session hands back to the SMTP library; \<open>None\<close> is a nil error.\<close>

datatype smtp_error = ErrUnknownRecipient | ErrDataReset

text \<open>\<^verbatim>\<open>Session.Rcpt\<close>. The options are not read.\<close>

fun Session_Rcpt :: "env \<Rightarrow> string \<Rightarrow> smtp_error option" where
  "Session_Rcpt c toAddress =
     (if toAddress \<noteq> SMTP_ADDRESS_DMARC c \<or>
         toAddress \<noteq> SMTP_ADDRESS_NOREPLY c \<or>
         toAddress \<noteq> SMTP_ADDRESS_FORWARD c
      then Some ErrUnknownRecipient
      else None)"

text \<open>The \<^verbatim>\<open>Email\<close> of package \<^verbatim>\<open>env\<close>: one recipient. Its attachments are as in package email.\<close>

record env_Email =
  ToName :: string
  ToAddress :: string
  FromName :: string
  FromAddress :: string
  env_Subject :: string
  env_Content :: string
  env_HTML :: bool
  env_Attachments :: "Attachment list"

text \<open>
  The process state of package \<^verbatim>\<open>env\<close>: the map \<^verbatim>\<open>emailDebounce\<close> from a sender's address
  to a time, the channel \<^verbatim>\<open>emailQueue\<close>, and the \<^verbatim>\<open>time.Timer\<close> that \<^verbatim>\<open>init\<close> creates:
  the time the process started and whether the timer's one tick is still to come. Times are
  nanoseconds.
\<close>

record process =
  emailDebounce :: "string \<rightharpoonup> int"
  emailQueue :: "env_Email chan"
  processStart :: int
  timerPending :: bool

definition Hour :: int where
  "Hour = 3600 * 1000000000"

definition startProcess :: "int \<Rightarrow> process" where
  "startProcess now =
     \<lparr>emailDebounce = Map.empty,
      emailQueue = \<lparr>chan_buf = [], chan_cap = 1000, chan_closed = False\<rparr>,
      processStart = now,
      timerPending = True\<rparr>"

text \<open>
  The goroutine of \<^verbatim>\<open>init\<close>: \<^verbatim>\<open>t := time.NewTimer(time.Hour); for range t.C { ... }\<close>.
  The body deletes every entry whose time lies before now. A \<^verbatim>\<open>Timer\<close> sends on its
  channel once, an hour after its creation, and the channel is never closed: the body runs
  for that one tick and the loop then waits for ever.
\<close>

definition sweep :: "int \<Rightarrow> process \<Rightarrow> process" where
  "sweep now p =
     p\<lparr>emailDebounce :=
         (\<lambda>key. case emailDebounce p key of
                  None \<Rightarrow> None
                | Some sent \<Rightarrow> if sent < now then None else Some sent)\<rparr>"

definition timerFires :: "int \<Rightarrow> process \<Rightarrow> process" where
  "timerFires now p =
     (if timerPending p \<and> processStart p + Hour \<le> now
      then sweep now (p\<lparr>timerPending := False\<rparr>)
      else p)"

text \<open>
  \<^verbatim>\<open>QueueEmail\<close> of package \<^verbatim>\<open>env\<close>: the same \<^verbatim>\<open>select\<close>, with a log line in place of
  the boolean.
\<close>

definition QueueEmail_env :: "env_Email chan \<Rightarrow> env_Email \<Rightarrow> failure + env_Email chan" where
  "QueueEmail_env q email =
     (case trySend q email of
        Inl p \<Rightarrow> Inl p
      | Inr (accepted, q') \<Rightarrow> Inr q')"

text \<open>
  The libraries of the inbound side: \<^verbatim>\<open>enmime.ReadEnvelope\<close> (an envelope is its
  \<^verbatim>\<open>GetHeader\<close>), \<^verbatim>\<open>mail.ParseAddress\<close>, \<^verbatim>\<open>dkim.Verify\<close> (whether it returned no error),
  and the two embedded files of package \<^verbatim>\<open>include\<close>.
\<close>

record inbound =
  enmimeReadEnvelope :: "string \<Rightarrow> (string \<Rightarrow> string) option"
  mailParseAddress :: "string \<Rightarrow> Address option"
  dkimVerify :: "string \<Rightarrow> bool"
  NoreplyIndex :: string
  NoreplyImage :: string

text \<open>
  \<^verbatim>\<open>Session.Data\<close> at time \<open>now\<close>. The reader yields the message or fails (\<open>None\<close>). The
  result is the process state left behind and the error returned, or the panic of a send on
  the closed queue.
\<close>

definition Session_Data ::
  "inbound \<Rightarrow> env \<Rightarrow> int \<Rightarrow> string option \<Rightarrow> process
   \<Rightarrow> process \<times> (failure + smtp_error option)" where
  "Session_Data lib c now r p =
     (case r of
        None \<Rightarrow> (p, Inr (Some ErrDataReset))
      | Some data \<Rightarrow>
     (case enmimeReadEnvelope lib data of
        None \<Rightarrow> (p, Inr (Some ErrDataReset))
      | Some envelope \<Rightarrow>
     (case mailParseAddress lib (envelope ''To'') of
        None \<Rightarrow> (p, Inr (Some ErrDataReset))
      | Some To_ \<Rightarrow>
     (case mailParseAddress lib (envelope ''From'') of
        None \<Rightarrow> (p, Inr (Some ErrDataReset))
      | Some From_ \<Rightarrow>
          if \<not> dkimVerify lib data then (p, Inr (Some ErrDataReset))
          else if Address To_ = SMTP_ADDRESS_DMARC c then (p, Inr None)
          else if Address To_ = SMTP_ADDRESS_NOREPLY c then
            (if SMTP_DISABLE_NOREPLY c = [] then (p, Inr (Some ErrUnknownRecipient))
             else case emailDebounce p (Address From_) of
                    Some sent \<Rightarrow> (p, Inr None)
                  | None \<Rightarrow>
                      (case QueueEmail_env (emailQueue p)
                              \<lparr>ToName = Name From_,
                               ToAddress = Address From_,
                               FromName = SMTP_ADDRESS_NOREPLY c,
                               FromAddress = SMTP_ADDRESS_NOREPLY c,
                               env_Subject = ''Need Help?'',
                               env_Content = NoreplyIndex lib,
                               env_HTML = True,
                               env_Attachments =
                                 [\<lparr>ContentType = ''image/png'', Filename = ''robot.png'',
                                   Data = NoreplyImage lib, Inline = True\<rparr>]\<rparr> of
                         Inl panic \<Rightarrow>
                           (p\<lparr>emailDebounce := (emailDebounce p)(Address From_ \<mapsto> now + Hour)\<rparr>,
                            Inl panic)
                       | Inr q \<Rightarrow>
                           (p\<lparr>emailDebounce := (emailDebounce p)(Address From_ \<mapsto> now + Hour),
                              emailQueue := q\<rparr>,
                            Inr None)))
          else if SMTP_FORWARD_ADDRESS c = [] then (p, Inr (Some ErrUnknownRecipient))
          else
            (case QueueEmail_env (emailQueue p)
                    \<lparr>ToName = [],
                     ToAddress = SMTP_FORWARD_ADDRESS c,
                     FromName = Address From_,
                     FromAddress = ''catchall@'' @ SMTP_DOMAIN c,
                     env_Subject = ''Fwd: '' @ envelope ''Subject'',
                     env_Content = ''Forwarding an email from: '' @ Address From_,
                     env_HTML = False,
                     env_Attachments =
                       [\<lparr>ContentType = ''message/rfc822'', Filename = ''forwarded_email.eml'',
                         Data = data, Inline = False\<rparr>]\<rparr> of
               Inl panic \<Rightarrow> (p, Inl panic)
             | Inr q \<Rightarrow> (p\<lparr>emailQueue := q\<rparr>, Inr None))))))"

text \<open>
  What happens to the process, in order of time: a message arrives at a session, or the
  timer of \<^verbatim>\<open>init\<close> has its tick delivered. \<open>run\<close> plays a list of such events and collects
  what each session returned.
\<close>

datatype event = Inbound "string option" | TimerFires

fun run ::
  "inbound \<Rightarrow> env \<Rightarrow> (int \<times> event) list \<Rightarrow> process
   \<Rightarrow> process \<times> (failure + smtp_error option) list" where
  "run lib c [] p = (p, [])"
| "run lib c ((now, Inbound r) # rest) p =
     (case Session_Data lib c now r p of
        (p', result) \<Rightarrow> (case run lib c rest p' of (p'', results) \<Rightarrow> (p'', result # results)))"
| "run lib c ((now, TimerFires) # rest) p = run lib c rest (timerFires now p)"

section \<open>Construction and example collaborators\<close>

text \<open>
  \<^verbatim>\<open>New\<close>: an engine with the default settings. The number of processors is a parameter;
  the handlers and the settings of the inbound side are left out.
\<close>

definition New :: "nat \<Rightarrow> string \<Rightarrow> Engine" where
  "New numCPU domain =
     \<lparr>activeClosing = False,
      activeWorkers = 0,
      OutgoingWorkerCount = int numCPU,
      OutgoingTimeout = 30 * 1000000000,
      outgoingQueue = \<lparr>chan_buf = [], chan_cap = 1024, chan_closed = False\<rparr>,
      outgoingMiddleware = [],
      OutgoingDKIMEnabled = False,
      OutgoingDKIMSigner = [],
      OutgoingSelectorName = ''default'',
      Domain = domain,
      smtpServer = None,
      httpServer = None,
      drained = []\<rparr>"

text \<open>
  An insertion sort that moves an element left while it is less than its left neighbour: one
  behaviour \<^verbatim>\<open>sort.Slice\<close> may have. \<open>sink\<close> works on the sorted prefix in reverse.
\<close>

fun sink :: "('a \<Rightarrow> 'a \<Rightarrow> bool) \<Rightarrow> 'a \<Rightarrow> 'a list \<Rightarrow> 'a list" where
  "sink lt x [] = [x]"
| "sink lt x (y # ys) = (if lt x y then y # sink lt x ys else x # y # ys)"

definition insertionSort :: "('a \<Rightarrow> 'a \<Rightarrow> bool) \<Rightarrow> 'a list \<Rightarrow> 'a list" where
  "insertionSort lt xs = rev (foldl (\<lambda>acc x. sink lt x acc) [] xs)"




text \<open>
  Collaborators for the examples: every envelope builds, every signature succeeds, only
  \<^verbatim>\<open>example.com\<close> has mail exchangers, and the SMTP outcome is the parameter.
\<close>

definition exampleWorld :: "(nat \<Rightarrow> string \<Rightarrow> string option) \<Rightarrow> world" where
  "exampleWorld smtp =
     \<lparr>enmimeBuild = (\<lambda>email a. Encoded (''To: '' @ Address a)),
      dkimSign = (\<lambda>domain key selector envelope. Inr (''DKIM-Signature: d='' @ domain @ ''; '' @ envelope)),
      netLookupMX = (\<lambda>host. if host = ''example.com''
                             then MXRecords [\<lparr>Host = ''mx2.example.com'', Pref = 20\<rparr>,
                                             \<lparr>Host = ''mx1.example.com'', Pref = 10\<rparr>]
                             else DNSNotFound),
      sortSlice = insertionSort,
      smtpSendMail = (\<lambda>now addr fromAddr toAddrs msg. smtp now addr)\<rparr>"

text \<open>The same collaborators with a lookup that succeeds and returns no record.\<close>

definition emptyLookupWorld :: world where
  "emptyLookupWorld = exampleWorld (\<lambda>now addr. None) \<lparr>netLookupMX := (\<lambda>host. MXRecords [])\<rparr>"


text \<open>
  Inbound libraries for the examples: the message text is the sender's address, every message
  is addressed to the given inbox, every address parses and every signature verifies.
\<close>

definition exampleInbound :: "string \<Rightarrow> inbound" where
  "exampleInbound inbox =
     \<lparr>enmimeReadEnvelope =
        (\<lambda>data. Some (\<lambda>header. if header = ''To'' then inbox
                               else if header = ''From'' then data
                               else ''Hello'')),
      mailParseAddress = (\<lambda>s. Some \<lparr>Name = [], Address = s\<rparr>),
      dkimVerify = (\<lambda>data. True),
      NoreplyIndex = ''<html>Need help?</html>'',
      NoreplyImage = ''PNG''\<rparr>"

text \<open>The configuration when no variable is set.\<close>

definition defaultEnv :: env where
  "defaultEnv =
     \<lparr>SMTP_ADDRESS_DMARC = ''dmarc@example.org'',
      SMTP_ADDRESS_NOREPLY = ''noreply@example.org'',
      SMTP_ADDRESS_FORWARD = ''support@example.org'',
      SMTP_DOMAIN = ''example.org'',
      SMTP_USERNAME_DMARC = ''dmarc'',
      SMTP_USERNAME_NOREPLY = ''noreply'',
      SMTP_USERNAME_FORWARD = ''support'',
      SMTP_FORWARD_ADDRESS = [],
      SMTP_DISABLE_NOREPLY = []\<rparr>"

section \<open>Properties of the delivery path\<close>

subsection \<open>Address splitting\<close>

lemma dropWhile_no_sep: "c \<notin> set s \<Longrightarrow> dropWhile (\<lambda>x. x \<noteq> c) s = []"
  by (induction s) auto

lemma dropWhile_sep: "c \<in> set s \<Longrightarrow> \<exists>rest. dropWhile (\<lambda>x. x \<noteq> c) s = c # rest"
  by (induction s) auto

lemma SplitN2_no_sep: "c \<notin> set s \<Longrightarrow> SplitN2 s c = [s]"
  by (simp add: SplitN2_def dropWhile_no_sep)

lemma SplitN2_sep:
  assumes "c \<in> set s"
  shows "SplitN2 s c = [takeWhile (\<lambda>x. x \<noteq> c) s, tl (dropWhile (\<lambda>x. x \<noteq> c) s)]"
proof -
  from assms obtain rest where "dropWhile (\<lambda>x. x \<noteq> c) s = c # rest"
    using dropWhile_sep by fastforce
  then show ?thesis by (simp add: SplitN2_def)
qed

lemma extractHost_invalid:
  assumes "CHR ''@'' \<notin> set a \<or> tl (dropWhile (\<lambda>x. x \<noteq> CHR ''@'') a) = []"
  shows "extractHostFromAddress a = Inl (Err (''invalid email address: '' @ a))"
proof (cases "CHR ''@'' \<in> set a")
  case True
  with assms have "tl (dropWhile (\<lambda>x. x \<noteq> CHR ''@'') a) = []" by simp
  with True show ?thesis
    by (simp add: extractHostFromAddress_def SplitN2_sep)
next
  case False
  then show ?thesis
    by (simp add: extractHostFromAddress_def SplitN2_no_sep)
qed

lemma extractHost_valid:
  assumes "CHR ''@'' \<in> set a" and "tl (dropWhile (\<lambda>x. x \<noteq> CHR ''@'') a) \<noteq> []"
  shows "extractHostFromAddress a = Inr (tl (dropWhile (\<lambda>x. x \<noteq> CHR ''@'') a))"
  using assms by (simp add: extractHostFromAddress_def SplitN2_sep)

lemma deliverRecipient_invalid:
  assumes "extractHostFromAddress (Address a) = Inl err"
  shows "(\<exists>err'. snd (deliverRecipient w e email a tr) = Return (Inl err'))
       \<and> filter isLookup (fst (deliverRecipient w e email a tr)) = filter isLookup tr
       \<and> filter isSendMail (fst (deliverRecipient w e email a tr)) = filter isSendMail tr"
  using assms
  by (simp add: deliverRecipient_def signEnvelope_def Let_def split: build_result.splits sum.splits)

subsection \<open>The attempt loop\<close>

lemma recordAt_nonempty:
  "records \<noteq> [] \<Longrightarrow> recordAt records i = Inr (records ! (i mod length records))"
  by (simp add: recordAt_def)





lemma attemptTotal_New: "attemptTotal (New numCPU domain) = 3"
  by (simp add: attemptTotal_def truncSecondsDiv10_def New_def)



subsection \<open>One recipient at a time\<close>

lemma deliverRecipient_returns:
  "\<exists>r. snd (deliverRecipient w e email a tr) = Return r"
  by (simp add: deliverRecipient_def signEnvelope_def Let_def
      split: build_result.splits sum.splits lookup_result.splits prod.splits)

lemma rangeTo_first_only:
  "rangeTo w e email (a # rest) tr = rangeTo w e email [a] tr"
proof -
  obtain r where "snd (deliverRecipient w e email a tr) = Return r"
    using deliverRecipient_returns by blast
  then show ?thesis
    by (cases "deliverRecipient w e email a tr") simp
qed

lemma rangeTo_Cons:
  assumes "snd (deliverRecipient w e email a tr) = Return r"
  shows "rangeTo w e email (a # rest) tr = (fst (deliverRecipient w e email a tr), r)"
  using assms by (cases "deliverRecipient w e email a tr") simp

lemma SendEmail_no_middleware:
  assumes "outgoingMiddleware e = []" and "To email = a # rest"
  shows "SendEmail w e email = rangeTo w e email (a # rest) []"
  using assms by (simp add: SendEmail_def)

text \<open>
  C1. The specification asks for one delivery unit per recipient, none blocked by another's
  failure.
  Every path through the body of the loop over \<^verbatim>\<open>email.To\<close> returns from
  \<^verbatim>\<open>SendEmail\<close> (lemma \<open>rangeTo_first_only\<close>), so the call works on the first recipient
  alone. With two recipients and collaborators that always succeed, one envelope is built and
  handed off, for the first recipient, and the call returns success; when the first
  recipient's domain has no mail exchanger the call returns that error and the second
  recipient is never attempted.
\<close>

theorem C1_only_first_recipient_is_processed:
  "SendEmail (exampleWorld (\<lambda>now addr. None)) (New 4 ''example.org'')
     \<lparr>To = [\<lparr>Name = ''Alice'', Address = ''alice@example.com''\<rparr>,
             \<lparr>Name = ''Bob'', Address = ''bob@example.com''\<rparr>],
      From = \<lparr>Name = ''Robot'', Address = ''noreply@example.org''\<rparr>,
      Subject = ''Hi'', Content = ''Hello'', HTML = False, Attachments = []\<rparr>
   = ([NewEnvelope \<lparr>Name = ''Alice'', Address = ''alice@example.com''\<rparr>,
       LookupMX ''example.com'',
       SendMail ''mx1.example.com:25'' ''noreply@example.org'' [''alice@example.com'']
         ''To: alice@example.com''],
      Inr ())
   \<and> SendEmail (exampleWorld (\<lambda>now addr. None)) (New 4 ''example.org'')
     \<lparr>To = [\<lparr>Name = ''Alice'', Address = ''alice@nowhere.invalid''\<rparr>,
             \<lparr>Name = ''Bob'', Address = ''bob@example.com''\<rparr>],
      From = \<lparr>Name = ''Robot'', Address = ''noreply@example.org''\<rparr>,
      Subject = ''Hi'', Content = ''Hello'', HTML = False, Attachments = []\<rparr>
   = ([NewEnvelope \<lparr>Name = ''Alice'', Address = ''alice@nowhere.invalid''\<rparr>,
       LookupMX ''nowhere.invalid''],
      Inl (Err ''no mx records present for nowhere.invalid''))"
  by (simp add: SendEmail_def deliverRecipient_def signEnvelope_def exampleWorld_def New_def attemptTotal_def
      truncSecondsDiv10_def extractHostFromAddress_def SplitN2_def insertionSort_def recordAt_def
      attemptLoop.simps)

lemma attemptLoop_no_panic:
  assumes "records \<noteq> []"
  shows "snd (attemptLoop w f t c records n i errs tr) \<noteq> Inl (Panic p)"
  using assms
proof (induction w f t c records n i errs tr rule: attemptLoop.induct)
  case (1 w fromAddr toAddr complete records n i attemptErrors tr)
  show ?case
  proof (cases "i < n")
    case False
    then show ?thesis by (subst attemptLoop.simps) simp
  next
    case True
    show ?thesis
    proof (cases "smtpSendMail w (length tr) (Host (records ! (i mod length records)) @ '':25'') fromAddr [toAddr] complete")
      case None
      with True 1(2) show ?thesis
        by (subst attemptLoop.simps) (simp add: recordAt_nonempty)
    next
      case (Some err)
      have r: "recordAt records i = Inr (records ! (i mod length records))"
        using 1(2) by (rule recordAt_nonempty)
      from 1(1)[OF True r Some 1(2)] True Some r show ?thesis
        by (subst attemptLoop.simps) simp
    qed
  qed
qed

lemma attemptLoop_empty:
  assumes "i < n"
  shows "attemptLoop w f t c [] n i errs tr = (tr, Inl (Panic ''integer divide by zero''))"
  using assms by (subst attemptLoop.simps) (simp add: recordAt_def)

lemma attemptTotal_pos: "0 < attemptTotal e"
  by (simp add: attemptTotal_def max_def)

text \<open>
  C8. An address without \<open>@\<close>, or with nothing after its first \<open>@\<close>, is refused by
  \<^verbatim>\<open>extractHostFromAddress\<close>; the delivery of that recipient then returns the error having
  added no MX lookup and no SMTP handoff to the steps taken, and so does the whole
  \<^verbatim>\<open>SendEmail\<close> call when that recipient is the first of the message.
\<close>

theorem C8_invalid_address_rejected_before_lookup:
  assumes "CHR ''@'' \<notin> set (Address addressee)
           \<or> tl (dropWhile (\<lambda>x. x \<noteq> CHR ''@'') (Address addressee)) = []"
  shows "extractHostFromAddress (Address addressee)
           = Inl (Err (''invalid email address: '' @ Address addressee))
    \<and> (\<exists>err. snd (deliverRecipient w e email addressee tr) = Return (Inl err))
    \<and> filter isLookup (fst (deliverRecipient w e email addressee tr)) = filter isLookup tr
    \<and> filter isSendMail (fst (deliverRecipient w e email addressee tr)) = filter isSendMail tr
    \<and> (outgoingMiddleware e = [] \<and> To email = addressee # rest
         \<longrightarrow> (\<exists>err. snd (SendEmail w e email) = Inl err)
             \<and> filter isLookup (fst (SendEmail w e email)) = []
             \<and> filter isSendMail (fst (SendEmail w e email)) = [])"
proof -
  have bad: "extractHostFromAddress (Address addressee)
           = Inl (Err (''invalid email address: '' @ Address addressee))"
    using assms by (rule extractHost_invalid)
  note body = deliverRecipient_invalid[OF bad, of w e email]
  have whole: "(\<exists>err. snd (SendEmail w e email) = Inl err)
             \<and> filter isLookup (fst (SendEmail w e email)) = []
             \<and> filter isSendMail (fst (SendEmail w e email)) = []"
    if mw: "outgoingMiddleware e = []" and to: "To email = addressee # rest"
  proof -
    from body[of "[]"] obtain err where
      r: "snd (deliverRecipient w e email addressee []) = Return (Inl err)" by blast
    have "SendEmail w e email = (fst (deliverRecipient w e email addressee []), Inl err)"
      using SendEmail_no_middleware[OF mw to] rangeTo_Cons[OF r] by simp
    with body[of "[]"] show ?thesis by simp
  qed
  from bad body[of tr] whole show ?thesis by blast
qed

theorem C8_invalid_address_witness:
  "extractHostFromAddress ''bob.example.com'' = Inl (Err ''invalid email address: bob.example.com'')
   \<and> extractHostFromAddress ''bob@'' = Inl (Err ''invalid email address: bob@'')
   \<and> SendEmail (exampleWorld (\<lambda>now addr. None)) (New 4 ''example.org'')
        \<lparr>To = [\<lparr>Name = ''Bob'', Address = ''bob@''\<rparr>],
         From = \<lparr>Name = ''Robot'', Address = ''noreply@example.org''\<rparr>,
         Subject = ''Hi'', Content = ''Hello'', HTML = False, Attachments = []\<rparr>
       = ([NewEnvelope \<lparr>Name = ''Bob'', Address = ''bob@''\<rparr>],
          Inl (Err ''invalid email address: bob@''))"
proof -
  have a: "CHR ''@'' \<notin> set (Address \<lparr>Name = ''Bob'', Address = ''bob.example.com''\<rparr>)
           \<or> tl (dropWhile (\<lambda>x. x \<noteq> CHR ''@'') (Address \<lparr>Name = ''Bob'', Address = ''bob.example.com''\<rparr>)) = []"
    by simp
  have b: "CHR ''@'' \<notin> set (Address \<lparr>Name = ''Bob'', Address = ''bob@''\<rparr>)
           \<or> tl (dropWhile (\<lambda>x. x \<noteq> CHR ''@'') (Address \<lparr>Name = ''Bob'', Address = ''bob@''\<rparr>)) = []"
    by simp
  have 1: "extractHostFromAddress ''bob.example.com'' = Inl (Err ''invalid email address: bob.example.com'')"
    using C8_invalid_address_rejected_before_lookup[OF a] by simp
  have 2: "extractHostFromAddress ''bob@'' = Inl (Err ''invalid email address: bob@'')"
    using C8_invalid_address_rejected_before_lookup[OF b] by simp
  have 3: "SendEmail (exampleWorld (\<lambda>now addr. None)) (New 4 ''example.org'')
        \<lparr>To = [\<lparr>Name = ''Bob'', Address = ''bob@''\<rparr>],
         From = \<lparr>Name = ''Robot'', Address = ''noreply@example.org''\<rparr>,
         Subject = ''Hi'', Content = ''Hello'', HTML = False, Attachments = []\<rparr>
       = ([NewEnvelope \<lparr>Name = ''Bob'', Address = ''bob@''\<rparr>],
          Inl (Err ''invalid email address: bob@''))"
    using 2
    by (simp add: SendEmail_def deliverRecipient_def signEnvelope_def exampleWorld_def New_def)
  from 1 2 3 show ?thesis by simp
qed

text \<open>
  C10. Over a non-empty candidate list every index \<open>i mod length records\<close> is in range, the
  access yields that record, and the attempt loop never panics. Nothing guards the empty
  list: there the first attempt panics on the remainder, and so does the delivery of a
  recipient whose lookup succeeds with no records (the sort keeps an empty list empty).
\<close>

theorem C10_candidate_access_in_bounds:
  "(records \<noteq> [] \<longrightarrow>
      i mod length records < length records
      \<and> recordAt records i = Inr (records ! (i mod length records))
      \<and> (\<forall>p. snd (attemptLoop w f t c records n i errs tr) \<noteq> Inl (Panic p)))
   \<and> (i < n \<longrightarrow>
      attemptLoop w f t c [] n i errs tr = (tr, Inl (Panic ''integer divide by zero'')))
   \<and> (enmimeBuild w email a = Encoded envelope \<and> \<not> OutgoingDKIMEnabled e
       \<and> extractHostFromAddress (Address a) = Inr host \<and> netLookupMX w host = MXRecords []
       \<and> sortSlice w (\<lambda>a b. Pref a < Pref b) [] = [] \<longrightarrow>
      deliverRecipient w e email a tr
        = (tr @ [NewEnvelope a, LookupMX host], Return (Inl (Panic ''integer divide by zero''))))"
proof (intro conjI impI)
  assume ne: "records \<noteq> []"
  then show "i mod length records < length records" by simp
  from ne show "recordAt records i = Inr (records ! (i mod length records))"
    by (rule recordAt_nonempty)
  from ne show "\<forall>p. snd (attemptLoop w f t c records n i errs tr) \<noteq> Inl (Panic p)"
    using attemptLoop_no_panic by blast
next
  assume "i < n"
  then show "attemptLoop w f t c [] n i errs tr = (tr, Inl (Panic ''integer divide by zero''))"
    by (rule attemptLoop_empty)
next
  assume h: "enmimeBuild w email a = Encoded envelope \<and> \<not> OutgoingDKIMEnabled e
       \<and> extractHostFromAddress (Address a) = Inr host \<and> netLookupMX w host = MXRecords []
       \<and> sortSlice w (\<lambda>a b. Pref a < Pref b) [] = []"
  have "attemptLoop w (Address (From email)) (Address a) envelope [] (attemptTotal e) 0 []
          (tr @ [NewEnvelope a, LookupMX host])
        = (tr @ [NewEnvelope a, LookupMX host], Inl (Panic ''integer divide by zero''))"
    using attemptTotal_pos by (rule attemptLoop_empty)
  with h show "deliverRecipient w e email a tr
        = (tr @ [NewEnvelope a, LookupMX host], Return (Inl (Panic ''integer divide by zero'')))"
    by (simp add: deliverRecipient_def signEnvelope_def)
qed

theorem C10_candidate_access_witness:
  "recordAt [\<lparr>Host = ''mx1.example.com'', Pref = 10\<rparr>, \<lparr>Host = ''mx2.example.com'', Pref = 20\<rparr>] 2
     = Inr \<lparr>Host = ''mx1.example.com'', Pref = 10\<rparr>
   \<and> attemptLoop (exampleWorld (\<lambda>now addr. None)) ''noreply@example.org'' ''bob@example.com''
        ''hello'' [] 3 0 [] []
     = ([], Inl (Panic ''integer divide by zero''))
   \<and> deliverRecipient emptyLookupWorld (New 4 ''example.org'')
        \<lparr>To = [\<lparr>Name = ''Bob'', Address = ''bob@example.com''\<rparr>],
         From = \<lparr>Name = ''Robot'', Address = ''noreply@example.org''\<rparr>,
         Subject = ''Hi'', Content = ''Hello'', HTML = False, Attachments = []\<rparr>
        \<lparr>Name = ''Bob'', Address = ''bob@example.com''\<rparr> []
     = ([NewEnvelope \<lparr>Name = ''Bob'', Address = ''bob@example.com''\<rparr>, LookupMX ''example.com''],
        Return (Inl (Panic ''integer divide by zero'')))"
proof -
  note th = C10_candidate_access_in_bounds[where
      records = "[\<lparr>Host = ''mx1.example.com'', Pref = 10\<rparr>, \<lparr>Host = ''mx2.example.com'', Pref = 20\<rparr>]"
      and i = 2 and w = emptyLookupWorld and n = 3
      and email = "\<lparr>To = [\<lparr>Name = ''Bob'', Address = ''bob@example.com''\<rparr>],
         From = \<lparr>Name = ''Robot'', Address = ''noreply@example.org''\<rparr>,
         Subject = ''Hi'', Content = ''Hello'', HTML = False, Attachments = []\<rparr>"
      and a = "\<lparr>Name = ''Bob'', Address = ''bob@example.com''\<rparr>"
      and envelope = "''To: bob@example.com''"
      and e = "New 4 ''example.org''" and host = "''example.com''" and tr = "[]"]
  note th0 = C10_candidate_access_in_bounds[where
      records = "[]" and i = 0 and w = "exampleWorld (\<lambda>now addr. None)"
      and f = "''noreply@example.org''" and t = "''bob@example.com''" and c = "''hello''"
      and n = 3 and errs = "[]" and tr = "[]"]
  have 1: "recordAt [\<lparr>Host = ''mx1.example.com'', Pref = 10\<rparr>, \<lparr>Host = ''mx2.example.com'', Pref = 20\<rparr>] 2
     = Inr \<lparr>Host = ''mx1.example.com'', Pref = 10\<rparr>"
    using th by (simp add: numeral_2_eq_2)
  have 2: "attemptLoop (exampleWorld (\<lambda>now addr. None)) ''noreply@example.org'' ''bob@example.com''
        ''hello'' [] 3 0 [] []
     = ([], Inl (Panic ''integer divide by zero''))"
    using th0 by simp
  have 3: "deliverRecipient emptyLookupWorld (New 4 ''example.org'')
        \<lparr>To = [\<lparr>Name = ''Bob'', Address = ''bob@example.com''\<rparr>],
         From = \<lparr>Name = ''Robot'', Address = ''noreply@example.org''\<rparr>,
         Subject = ''Hi'', Content = ''Hello'', HTML = False, Attachments = []\<rparr>
        \<lparr>Name = ''Bob'', Address = ''bob@example.com''\<rparr> []
     = ([NewEnvelope \<lparr>Name = ''Bob'', Address = ''bob@example.com''\<rparr>, LookupMX ''example.com''],
        Return (Inl (Panic ''integer divide by zero'')))"
    using th
    by (simp add: emptyLookupWorld_def exampleWorld_def New_def insertionSort_def
        extractHostFromAddress_def SplitN2_def)
  from 1 2 3 show ?thesis by simp
qed

subsection \<open>The order of the candidates\<close>













text \<open>The first insertion sort keeps records of equal preference in their order.\<close>

lemma filter_sink:
  fixes key :: "'a \<Rightarrow> 'b::linorder"
  shows "filter (\<lambda>r. key r = p) (sink (\<lambda>a b. key a < key b) x ys)
         = filter (\<lambda>r. key r = p) [x] @ filter (\<lambda>r. key r = p) ys"
  by (induction ys) auto

lemma filter_foldl_sink:
  fixes key :: "'a \<Rightarrow> 'b::linorder"
  shows "filter (\<lambda>r. key r = p) (rev (foldl (\<lambda>acc x. sink (\<lambda>a b. key a < key b) x acc) acc xs))
         = filter (\<lambda>r. key r = p) (rev acc) @ filter (\<lambda>r. key r = p) xs"
proof (induction xs arbitrary: acc)
  case Nil
  then show ?case by simp
next
  case (Cons x xs)
  have "filter (\<lambda>r. key r = p) (rev (sink (\<lambda>a b. key a < key b) x acc))
        = filter (\<lambda>r. key r = p) (rev acc) @ filter (\<lambda>r. key r = p) [x]"
    using filter_sink[of key p x acc] by (simp flip: rev_filter)
  then show ?case
    by (simp add: Cons.IH)
qed

lemma insertionSort_stable:
  "filter (\<lambda>r. Pref r = p) (insertionSort (\<lambda>a b. Pref a < Pref b) (xs :: MX list))
     = filter (\<lambda>r. Pref r = p) xs"
  using filter_foldl_sink[where key = "Pref :: MX \<Rightarrow> 16 word" and acc = "[]" and p = p and xs = xs]
  by (simp add: insertionSort_def)





section \<open>Properties of the queue and of shutdown\<close>





lemma Shutdown_after:
  assumes "Shutdown e = Inr e'"
  shows "activeClosing e'"
  using assms by (auto simp: Shutdown_def split: if_splits sum.splits)

lemma Shutdown_closed: "activeClosing e \<Longrightarrow> Shutdown e = Inr e"
  by (simp add: Shutdown_def)

lemma ShutdownTimes_closed: "activeClosing e \<Longrightarrow> ShutdownTimes n e = Inr e"
  by (induction n) (simp_all add: Shutdown_closed)

lemma ShutdownTimes_first:
  assumes "Shutdown e = Inr e'" and "0 < n"
  shows "ShutdownTimes n e = Inr e'"
proof -
  from assms(2) obtain m where n: "n = Suc m" by (cases n) auto
  have "ShutdownTimes m e' = Inr e'"
    using Shutdown_after[OF assms(1)] by (rule ShutdownTimes_closed)
  with assms(1) n show ?thesis by simp
qed

lemma Shutdown_started:
  assumes "\<not> activeClosing e" and "httpServer e \<noteq> None" and "smtpServer e \<noteq> None"
    and "\<not> chan_closed (outgoingQueue e)"
  shows "\<exists>e'. Shutdown e = Inr e'
           \<and> drained e' = drained e @ [HTTPShutdown, SMTPShutdown, QueueClose, WorkersWait]
           \<and> httpServer e' = Some Drained \<and> smtpServer e' = Some Drained
           \<and> chan_closed (outgoingQueue e') \<and> activeWorkers e' = 0"
  using assms
  by (auto simp: Shutdown_def drainAll_def closeChan_def)

text \<open>
  C7. Once a call of \<^verbatim>\<open>Shutdown\<close> has returned, every further call returns the engine
  unchanged: any number of calls, one after the other, ends in the state the first one left.
  On an engine that was started and not yet shut down the first call performs each of the
  drain actions exactly once (both servers shut down, the queue closed, the workers awaited).
  Calls that overlap in time are serialised by \<^verbatim>\<open>sync.Once\<close>, which is taken as given.
\<close>

theorem C7_shutdown_idempotent:
  "(Shutdown e = Inr e' \<longrightarrow>
       Shutdown e' = Inr e' \<and> (\<forall>n. 0 < n \<longrightarrow> ShutdownTimes n e = Inr e'))
   \<and> (\<not> activeClosing e \<and> httpServer e \<noteq> None \<and> smtpServer e \<noteq> None
       \<and> \<not> chan_closed (outgoingQueue e) \<longrightarrow>
       (\<exists>e1. Shutdown e = Inr e1
          \<and> drained e1 = drained e @ [HTTPShutdown, SMTPShutdown, QueueClose, WorkersWait]
          \<and> httpServer e1 = Some Drained \<and> smtpServer e1 = Some Drained
          \<and> chan_closed (outgoingQueue e1) \<and> activeWorkers e1 = 0
          \<and> (\<forall>n. 0 < n \<longrightarrow> ShutdownTimes n e = Inr e1 )))"
proof (intro conjI impI)
  assume s: "Shutdown e = Inr e'"
  show "Shutdown e' = Inr e'"
    using Shutdown_after[OF s] by (rule Shutdown_closed)
  show "\<forall>n. 0 < n \<longrightarrow> ShutdownTimes n e = Inr e'"
    using ShutdownTimes_first[OF s] by blast
next
  assume h: "\<not> activeClosing e \<and> httpServer e \<noteq> None \<and> smtpServer e \<noteq> None
       \<and> \<not> chan_closed (outgoingQueue e)"
  then obtain e1 where e1: "Shutdown e = Inr e1"
      "drained e1 = drained e @ [HTTPShutdown, SMTPShutdown, QueueClose, WorkersWait]"
      "httpServer e1 = Some Drained" "smtpServer e1 = Some Drained"
      "chan_closed (outgoingQueue e1)" "activeWorkers e1 = 0"
    using Shutdown_started[of e] by blast
  have "\<forall>n. 0 < n \<longrightarrow> ShutdownTimes n e = Inr e1"
    using ShutdownTimes_first[OF e1(1)] by blast
  with e1 show "\<exists>e1. Shutdown e = Inr e1
          \<and> drained e1 = drained e @ [HTTPShutdown, SMTPShutdown, QueueClose, WorkersWait]
          \<and> httpServer e1 = Some Drained \<and> smtpServer e1 = Some Drained
          \<and> chan_closed (outgoingQueue e1) \<and> activeWorkers e1 = 0
          \<and> (\<forall>n. 0 < n \<longrightarrow> ShutdownTimes n e = Inr e1)"
    by blast
qed

theorem C7_shutdown_witness:
  "ShutdownTimes 3 (Start (New 4 ''example.org''))
     = Inr ((Start (New 4 ''example.org''))
              \<lparr>activeClosing := True,
               activeWorkers := 0,
               outgoingQueue := \<lparr>chan_buf = [], chan_cap = 1024, chan_closed = True\<rparr>,
               smtpServer := Some Drained,
               httpServer := Some Drained,
               drained := [HTTPShutdown, SMTPShutdown, QueueClose, WorkersWait]\<rparr>)
   \<and> Shutdown (Start (New 4 ''example.org'')) = ShutdownTimes 3 (Start (New 4 ''example.org''))
   \<and> (\<exists>e1. Shutdown (Start (New 4 ''example.org'')) = Inr e1
          \<and> drained e1 = [HTTPShutdown, SMTPShutdown, QueueClose, WorkersWait]
          \<and> ShutdownTimes 2 (Start (New 4 ''example.org'')) = Inr e1)"
proof -
  have s: "Shutdown (Start (New 4 ''example.org''))
     = Inr ((Start (New 4 ''example.org''))
              \<lparr>activeClosing := True,
               activeWorkers := 0,
               outgoingQueue := \<lparr>chan_buf = [], chan_cap = 1024, chan_closed = True\<rparr>,
               smtpServer := Some Drained,
               httpServer := Some Drained,
               drained := [HTTPShutdown, SMTPShutdown, QueueClose, WorkersWait]\<rparr>)"
    by (simp add: Shutdown_def drainAll_def closeChan_def Start_def New_def)
  from C7_shutdown_idempotent[THEN conjunct1, rule_format, OF s]
  have 1: "ShutdownTimes 3 (Start (New 4 ''example.org''))
     = Inr ((Start (New 4 ''example.org''))
              \<lparr>activeClosing := True,
               activeWorkers := 0,
               outgoingQueue := \<lparr>chan_buf = [], chan_cap = 1024, chan_closed = True\<rparr>,
               smtpServer := Some Drained,
               httpServer := Some Drained,
               drained := [HTTPShutdown, SMTPShutdown, QueueClose, WorkersWait]\<rparr>)"
    by simp
  have started: "\<not> activeClosing (Start (New 4 ''example.org''))
       \<and> httpServer (Start (New 4 ''example.org'')) \<noteq> None
       \<and> smtpServer (Start (New 4 ''example.org'')) \<noteq> None
       \<and> \<not> chan_closed (outgoingQueue (Start (New 4 ''example.org'')))"
    by (simp add: Start_def New_def)
  from C7_shutdown_idempotent[THEN conjunct2, rule_format, OF started]
  obtain e1 where e1: "Shutdown (Start (New 4 ''example.org'')) = Inr e1"
      "drained e1 = drained (Start (New 4 ''example.org''))
                      @ [HTTPShutdown, SMTPShutdown, QueueClose, WorkersWait]"
      "\<forall>n. 0 < n \<longrightarrow> ShutdownTimes n (Start (New 4 ''example.org'')) = Inr e1"
    by blast
  have 2: "\<exists>e1. Shutdown (Start (New 4 ''example.org'')) = Inr e1
          \<and> drained e1 = [HTTPShutdown, SMTPShutdown, QueueClose, WorkersWait]
          \<and> ShutdownTimes 2 (Start (New 4 ''example.org'')) = Inr e1"
  proof (intro exI conjI)
    show "Shutdown (Start (New 4 ''example.org'')) = Inr e1" by (rule e1(1))
    show "drained e1 = [HTTPShutdown, SMTPShutdown, QueueClose, WorkersWait]"
      using e1(2) by (simp add: Start_def New_def)
    show "ShutdownTimes 2 (Start (New 4 ''example.org'')) = Inr e1"
      using e1(3) by simp
  qed
  from s 1 2 show ?thesis by simp
qed

section \<open>Properties of the inbound session\<close>

lemma loadEnv_unset: "loadEnv (\<lambda>field. []) = Some defaultEnv"
  by (simp add: loadEnv_def envString_def defaultEnv_def)

lemma Rcpt_accepts_iff:
  "Session_Rcpt c toAddress = None \<longleftrightarrow>
     toAddress = SMTP_ADDRESS_DMARC c \<and> toAddress = SMTP_ADDRESS_NOREPLY c
     \<and> toAddress = SMTP_ADDRESS_FORWARD c"
  by simp

lemma Rcpt_rejects_all:
  assumes "SMTP_ADDRESS_DMARC c \<noteq> SMTP_ADDRESS_NOREPLY c
           \<or> SMTP_ADDRESS_NOREPLY c \<noteq> SMTP_ADDRESS_FORWARD c"
  shows "Session_Rcpt c toAddress = Some ErrUnknownRecipient"
  using assms by auto

text \<open>
  C2. The specification asks \<^verbatim>\<open>Rcpt\<close> to accept an address equal to one of the three inboxes and to
  reject every other. The condition of \<^verbatim>\<open>Rcpt\<close> joins its three inequalities with \<open>or\<close>: it
  fails only for an address equal to all three inboxes (lemma \<open>Rcpt_accepts_iff\<close>). With the
  default configuration each of the three inbox addresses is rejected as an unknown recipient.
\<close>

theorem C2_rcpt_rejects_the_configured_inboxes:
  "loadEnv (\<lambda>field. []) = Some defaultEnv
   \<and> Session_Rcpt defaultEnv ''dmarc@example.org'' = Some ErrUnknownRecipient
   \<and> Session_Rcpt defaultEnv ''noreply@example.org'' = Some ErrUnknownRecipient
   \<and> Session_Rcpt defaultEnv ''support@example.org'' = Some ErrUnknownRecipient"
  by (simp add: loadEnv_unset) (simp add: defaultEnv_def)

lemma Data_noreply_when_variable_empty:
  assumes "enmimeReadEnvelope lib data = Some envelope"
    and "mailParseAddress lib (envelope ''To'') = Some recipient"
    and "mailParseAddress lib (envelope ''From'') = Some sender"
    and "dkimVerify lib data"
    and "Address recipient = SMTP_ADDRESS_NOREPLY c"
    and "Address recipient \<noteq> SMTP_ADDRESS_DMARC c"
    and "SMTP_DISABLE_NOREPLY c = []"
  shows "Session_Data lib c now (Some data) p = (p, Inr (Some ErrUnknownRecipient))"
  using assms by (simp add: Session_Data_def)

lemma Data_noreply_when_variable_set:
  assumes "enmimeReadEnvelope lib data = Some envelope"
    and "mailParseAddress lib (envelope ''To'') = Some recipient"
    and "mailParseAddress lib (envelope ''From'') = Some sender"
    and "dkimVerify lib data"
    and "Address recipient = SMTP_ADDRESS_NOREPLY c"
    and "Address recipient \<noteq> SMTP_ADDRESS_DMARC c"
    and "SMTP_DISABLE_NOREPLY c \<noteq> []"
    and "emailDebounce p (Address sender) = None"
    and "\<not> chan_closed (emailQueue p)"
  shows "snd (Session_Data lib c now (Some data) p) = Inr None
       \<and> emailDebounce (fst (Session_Data lib c now (Some data) p)) (Address sender) = Some (now + Hour)"
  using assms by (simp add: Session_Data_def QueueEmail_env_def trySend_def)

text \<open>
  C3. The specification asks for a rejection when \<^verbatim>\<open>SMTP_DISABLE_NOREPLY\<close> is set, and for the
  suppression check and the auto-reply when it is empty, its default. \<^verbatim>\<open>Data\<close> tests the
  variable the other way round: with the default configuration a verified message to the
  no-reply inbox is rejected as an unknown recipient and nothing is recorded or queued; with
  the variable set to \<^verbatim>\<open>1\<close> the same message is accepted, the sender is recorded for an hour
  and one auto-reply to the sender is queued.
\<close>

theorem C3_noreply_switch_is_inverted:
  "Session_Data (exampleInbound ''noreply@example.org'') defaultEnv 5000000000
        (Some ''alice@example.com'') (startProcess 0)
     = (startProcess 0, Inr (Some ErrUnknownRecipient))
   \<and> snd (Session_Data (exampleInbound ''noreply@example.org'') (defaultEnv\<lparr>SMTP_DISABLE_NOREPLY := ''1''\<rparr>)
             5000000000 (Some ''alice@example.com'') (startProcess 0))
     = Inr None
   \<and> emailDebounce
        (fst (Session_Data (exampleInbound ''noreply@example.org'') (defaultEnv\<lparr>SMTP_DISABLE_NOREPLY := ''1''\<rparr>)
                5000000000 (Some ''alice@example.com'') (startProcess 0)))
        ''alice@example.com''
     = Some 3605000000000
   \<and> chan_buf (emailQueue
        (fst (Session_Data (exampleInbound ''noreply@example.org'') (defaultEnv\<lparr>SMTP_DISABLE_NOREPLY := ''1''\<rparr>)
                5000000000 (Some ''alice@example.com'') (startProcess 0))))
     = [\<lparr>ToName = [], ToAddress = ''alice@example.com'',
         FromName = ''noreply@example.org'', FromAddress = ''noreply@example.org'',
         env_Subject = ''Need Help?'', env_Content = ''<html>Need help?</html>'', env_HTML = True,
         env_Attachments = [\<lparr>ContentType = ''image/png'', Filename = ''robot.png'',
                              Data = ''PNG'', Inline = True\<rparr>]\<rparr>]"
  by (simp add: Session_Data_def QueueEmail_env_def trySend_def exampleInbound_def defaultEnv_def
      startProcess_def Hour_def)

lemma sweep_keeps_live:
  assumes "emailDebounce p key = Some sent" and "now \<le> sent"
  shows "emailDebounce (sweep now p) key = Some sent"
  using assms by (simp add: sweep_def)

lemma timerFires_once:
  "\<not> timerPending (timerFires now p)
   \<or> (timerFires now p = p \<and> now < processStart p + Hour)"
  by (auto simp: timerFires_def sweep_def)

lemma timerFires_spent:
  assumes "\<not> timerPending p"
  shows "timerFires now p = p"
  using assms by (simp add: timerFires_def)

lemma Data_keeps_entry:
  assumes "emailDebounce p key = Some sent"
  shows "emailDebounce (fst (Session_Data lib c now r p)) key = Some sent"
  using assms
  by (auto simp: Session_Data_def split: option.splits sum.splits prod.splits)

lemma run_keeps_entry:
  assumes "\<not> timerPending p" and "emailDebounce p key = Some sent"
  shows "\<not> timerPending (fst (run lib c events p))
       \<and> emailDebounce (fst (run lib c events p)) key = Some sent"
  using assms
proof (induction lib c events p rule: run.induct)
  case (1 lib c p)
  then show ?case by simp
next
  case (2 lib c now r rest p)
  obtain p' result where d: "Session_Data lib c now r p = (p', result)"
    by (cases "Session_Data lib c now r p")
  have tp: "\<not> timerPending p'"
    using d 2(2) by (auto simp: Session_Data_def split: option.splits sum.splits prod.splits if_splits)
  have en: "emailDebounce p' key = Some sent"
    using Data_keeps_entry[OF 2(3), of lib c now r] d by simp
  from 2(1)[OF d[symmetric] tp en] d show ?case
    by (auto split: prod.splits)
next
  case (3 lib c now rest p)
  then show ?case by (simp add: timerFires_spent)
qed

text \<open>
  C5. The specification asks for a second auto-reply once a sender's entry has expired. \<^verbatim>\<open>Data\<close>
  only asks whether the sender has an entry, never whether its time has passed, and the
  sweep that deletes expired entries runs for the timer's one tick, an hour after the process
  started, when an entry made since then is still live. With auto-replies switched on as the
  code has it: a sender writes one second after the start and is answered; writes again a
  second later and is silently accepted; the timer fires after one hour and deletes nothing;
  the sender writes after two and after four hours, long past the entry's expiry, and is
  silently accepted both times. One auto-reply was ever queued, and the entry is still there.
\<close>

theorem C5_suppression_entry_outlives_its_expiry:
  "snd (run (exampleInbound ''noreply@example.org'') (defaultEnv\<lparr>SMTP_DISABLE_NOREPLY := ''1''\<rparr>)
          [(1000000000, Inbound (Some ''alice@example.com'')),
           (2000000000, Inbound (Some ''alice@example.com'')),
           (3600000000000, TimerFires),
           (7200000000000, Inbound (Some ''alice@example.com'')),
           (10800000000000, TimerFires),
           (14400000000000, Inbound (Some ''alice@example.com''))]
          (startProcess 0))
     = [Inr None, Inr None, Inr None, Inr None]
   \<and> map ToAddress (chan_buf (emailQueue
        (fst (run (exampleInbound ''noreply@example.org'') (defaultEnv\<lparr>SMTP_DISABLE_NOREPLY := ''1''\<rparr>)
          [(1000000000, Inbound (Some ''alice@example.com'')),
           (2000000000, Inbound (Some ''alice@example.com'')),
           (3600000000000, TimerFires),
           (7200000000000, Inbound (Some ''alice@example.com'')),
           (10800000000000, TimerFires),
           (14400000000000, Inbound (Some ''alice@example.com''))]
          (startProcess 0)))))
     = [''alice@example.com'']
   \<and> emailDebounce
        (fst (run (exampleInbound ''noreply@example.org'') (defaultEnv\<lparr>SMTP_DISABLE_NOREPLY := ''1''\<rparr>)
          [(1000000000, Inbound (Some ''alice@example.com'')),
           (2000000000, Inbound (Some ''alice@example.com'')),
           (3600000000000, TimerFires),
           (7200000000000, Inbound (Some ''alice@example.com'')),
           (10800000000000, TimerFires),
           (14400000000000, Inbound (Some ''alice@example.com''))]
          (startProcess 0)))
        ''alice@example.com''
     = Some 3601000000000"
  by (simp add: Session_Data_def QueueEmail_env_def trySend_def exampleInbound_def defaultEnv_def
      startProcess_def Hour_def timerFires_def sweep_def)

end
